theory Spec2Isabelle
  imports Complex_Main "HOL-Library.Word"
begin

section \<open>BackRemove: the gateway logic of \<^verbatim>\<open>app/main.py\<close>\<close>

text \<open>
  A shallow embedding of the authentication guard with its per-client lockout
  (\<^verbatim>\<open>_get_client_ip\<close>, \<^verbatim>\<open>_is_blocked\<close>, \<^verbatim>\<open>_record_failure\<close>, \<^verbatim>\<open>verify_api_key\<close>)
  and of the request handler \<^verbatim>\<open>remove_bg\<close>.

  Conventions of the embedding:
  \<^item> Python names that start with an underscore lose it (\<^verbatim>\<open>_is_blocked\<close> is \<open>is_blocked\<close>),
    since an Isabelle name cannot start with one.
  \<^item> A reading of \<^verbatim>\<open>time.monotonic()\<close> is a parameter \<open>now\<close> of the function that reads
    the clock. It is a Python float, given as the real number that the float denotes. The
    difference of two readings is rounded as Python rounds it (\<open>float_sub\<close> below).
  \<^item> The two module-level dictionaries and the logger's output form the record \<open>server\<close>,
    passed in and returned.
  \<^item> \<^verbatim>\<open>raise HTTPException(...)\<close> is the left injection of a sum.
\<close>

subsection \<open>Constants\<close>

definition MAX_FAILED_ATTEMPTS :: nat where
  "MAX_FAILED_ATTEMPTS = 5"

definition BLOCK_DURATION :: real where
  "BLOCK_DURATION = 900"

definition ATTEMPT_WINDOW :: real where
  "ATTEMPT_WINDOW = 60"

definition ALLOWED_TYPES :: "string set" where
  "ALLOWED_TYPES = {''image/jpeg'', ''image/png'', ''image/webp'', ''image/gif'',
                    ''image/avif'', ''image/svg+xml''}"

definition MAX_FILE_SIZE :: nat where
  "MAX_FILE_SIZE = 20 * 1024 * 1024"

subsection \<open>State, requests and outcomes\<close>

text \<open>
  What the logger receives. The formatted message of the source is kept as its
  severity and its arguments: \<open>Warning_blocked ip n\<close> is
  \<^verbatim>\<open>logger.warning(f"Blocked {ip} for {BLOCK_DURATION}s after {n} failed auth attempts")\<close>,
  \<open>Error_timed_out t\<close> is \<^verbatim>\<open>logger.error(f"Inference timed out after {t}s")\<close> and
  \<open>Error_failed e\<close> is \<^verbatim>\<open>logger.error(f"Inference failed: {e}")\<close>.
\<close>

datatype log_entry =
    Warning_blocked string nat
  | Error_timed_out int
  | Error_failed string

record server =
  failed_attempts :: "string \<rightharpoonup> real list"
  blocked_ips :: "string \<rightharpoonup> real"
  logged :: "log_entry list"

text \<open>
  The part of a Starlette \<^verbatim>\<open>Request\<close> that the code reads: the value of the
  \<^verbatim>\<open>X-Forwarded-For\<close> header, if present, and \<^verbatim>\<open>request.client.host\<close>, if there is a
  client.
\<close>

record request =
  x_forwarded_for :: "string option"
  client_host :: "string option"

datatype http_exception = HTTPException (status_code: nat) (detail: string)

subsection \<open>Client identity\<close>

text \<open>
  \<^verbatim>\<open>str.strip()\<close> removes the characters for which \<^verbatim>\<open>str.isspace\<close> holds. A header
  value is decoded as Latin-1, so a character is one of 256 code points; among them the
  whitespace ones are 9 to 13, 28 to 32, 133 and 160.
\<close>

definition isspace :: "char \<Rightarrow> bool" where
  "isspace c = ((of_char c :: nat) \<in> {9, 10, 11, 12, 13, 28, 29, 30, 31, 32, 133, 160})"

definition strip :: "string \<Rightarrow> string" where
  "strip s = rev (dropWhile isspace (rev (dropWhile isspace s)))"

text \<open>\<^verbatim>\<open>s.split(",")[0]\<close>: the text before the first comma, all of it when there is none.\<close>

definition split_first :: "string \<Rightarrow> string" where
  "split_first s = takeWhile (\<lambda>c. c \<noteq> CHR '','') s"

definition get_client_ip :: "request \<Rightarrow> string" where
  "get_client_ip req =
     (case x_forwarded_for req of
        Some forwarded \<Rightarrow>
          if forwarded \<noteq> [] then strip (split_first forwarded)
          else (case client_host req of Some h \<Rightarrow> h | None \<Rightarrow> ''unknown'')
      | None \<Rightarrow> (case client_host req of Some h \<Rightarrow> h | None \<Rightarrow> ''unknown''))"

subsection \<open>Python floats\<close>

text \<open>
  A Python float is an IEEE 754 binary64 number, and \<^verbatim>\<open>x - y\<close> on floats is the exact
  difference rounded to the nearest float, a tie going to the float whose last bit is
  even. A float is a multiple of \<open>2 ^ (e - 52)\<close>, where \<open>e\<close> is the exponent of its binade
  (\<open>2 ^ e \<le> \<bar>x\<bar> < 2 ^ (e + 1)\<close>) and at least \<open>-1022\<close>.

  A difference that rounds to a magnitude of \<open>2 ^ 1024\<close> or more is an infinity in Python
  and a real of at least that magnitude and of the same sign here. The code only compares
  a difference with a constant, and both compare alike.
\<close>

text \<open>Rounding to the nearest integer, a tie going to the even one.\<close>

definition round_half_even :: "real \<Rightarrow> int" where
  "round_half_even y =
     (let n = \<lfloor>y\<rfloor>; d = y - of_int n
      in if d < 1 / 2 then n else if 1 / 2 < d then n + 1 else if even n then n else n + 1)"

text \<open>
  The exponent of the binade of \<open>a > 0\<close>: how often \<open>a \<ge> 1\<close> is halved until it is below 2,
  or minus how often \<open>a < 1\<close> is doubled until it is at least 1. The first argument bounds
  the count by the range of the exponent of a float.
\<close>

fun halvings :: "nat \<Rightarrow> real \<Rightarrow> int" where
  "halvings 0 a = 0"
| "halvings (Suc n) a = (if a < 2 then 0 else 1 + halvings n (a / 2))"

fun doublings :: "nat \<Rightarrow> real \<Rightarrow> int" where
  "doublings 0 a = 0"
| "doublings (Suc n) a = (if 1 \<le> a then 0 else 1 + doublings n (2 * a))"

definition float_exponent :: "real \<Rightarrow> int" where
  "float_exponent a = (if 1 \<le> a then halvings 1024 a else - doublings 1022 a)"

definition round_to_double :: "real \<Rightarrow> real" where
  "round_to_double x =
     (if x = 0 then 0
      else let q = 2 powi (float_exponent \<bar>x\<bar> - 52)
           in sgn x * of_int (round_half_even (\<bar>x\<bar> / q)) * q)"

text \<open>\<^verbatim>\<open>x - y\<close> on Python floats.\<close>

definition float_sub :: "real \<Rightarrow> real \<Rightarrow> real" where
  "float_sub x y = round_to_double (x - y)"

subsection \<open>Attempt tracker\<close>

text \<open>
  \<^verbatim>\<open>_is_blocked(ip)\<close>. The clock is read only when \<open>ip\<close> has a lockout entry; \<open>now\<close> is
  that reading.
\<close>

definition is_blocked :: "real \<Rightarrow> string \<Rightarrow> server \<Rightarrow> bool \<times> server" where
  "is_blocked now ip s =
     (case blocked_ips s ip of
        Some since \<Rightarrow>
          if float_sub now since < BLOCK_DURATION then (True, s)
          else (False, s\<lparr>blocked_ips := (blocked_ips s)(ip := None),
                         failed_attempts := (failed_attempts s)(ip := None)\<rparr>)
      | None \<Rightarrow> (False, s))"

text \<open>\<^verbatim>\<open>_record_failure(ip)\<close>, with \<open>now\<close> the reading of the clock in its first line.\<close>

definition record_failure :: "real \<Rightarrow> string \<Rightarrow> server \<Rightarrow> server" where
  "record_failure now ip s =
     (let attempts = (case failed_attempts s ip of Some ts \<Rightarrow> ts | None \<Rightarrow> []);
          attempts = filter (\<lambda>t. float_sub now t < ATTEMPT_WINDOW) attempts;
          attempts = attempts @ [now];
          s = s\<lparr>failed_attempts := (failed_attempts s)(ip \<mapsto> attempts)\<rparr>
      in if length attempts \<ge> MAX_FAILED_ATTEMPTS
         then s\<lparr>blocked_ips := (blocked_ips s)(ip \<mapsto> now),
                 logged := logged s @ [Warning_blocked ip (length attempts)]\<rparr>
         else s)"

subsection \<open>Authentication\<close>

text \<open>
  \<^verbatim>\<open>verify_api_key(request, key)\<close>. \<open>API_KEY\<close> is the environment variable (\<open>None\<close> when
  unset) and \<open>key\<close> the \<^verbatim>\<open>X-API-Key\<close> header (\<open>None\<close> when absent, as \<^verbatim>\<open>auto_error=False\<close>
  gives). \<open>now_check\<close> is the reading of the clock inside \<^verbatim>\<open>_is_blocked\<close> and \<open>now_fail\<close>
  the later one inside \<^verbatim>\<open>_record_failure\<close>. Returning normally is \<open>Inr ()\<close>.
\<close>

definition verify_api_key ::
  "string option \<Rightarrow> request \<Rightarrow> string option \<Rightarrow> real \<Rightarrow> real \<Rightarrow> server
     \<Rightarrow> (http_exception + unit) \<times> server" where
  "verify_api_key API_KEY req key now_check now_fail s =
     (if API_KEY = None then (Inr (), s)
      else
        let ip = get_client_ip req;
            (blocked, s) = is_blocked now_check ip s
        in if blocked
           then (Inl (HTTPException 429 ''Too many failed attempts. Try again later.''), s)
           else if key \<noteq> API_KEY
           then (Inl (HTTPException 401 ''Invalid or missing API key.''),
                 record_failure now_fail ip s)
           else (Inr (), s))"

subsection \<open>Reading the upload\<close>

type_synonym bytes = "8 word list"

text \<open>
  An upload is the sequence of results that the successive calls
  \<^verbatim>\<open>await file.read(1024 * 256)\<close> return. The argument only bounds the length of a result and
  the loop never looks at it, so it is left out of the model. Once the sequence is used
  up, a read returns the empty bytes, as a file does at its end.
\<close>

type_synonym upload = "bytes list"

text \<open>
  The \<^verbatim>\<open>while True\<close> loop of \<^verbatim>\<open>remove_bg\<close>, with the local variables \<open>chunks\<close> and
  \<open>total\<close> (here \<open>total_read\<close>) as accumulators. The result is paired with the part of
  the upload that no read has returned.
\<close>

fun read_chunks :: "upload \<Rightarrow> bytes list \<Rightarrow> nat \<Rightarrow> (http_exception + bytes list) \<times> upload" where
  "read_chunks [] chunks total_read = (Inr chunks, [])"
| "read_chunks (chunk # rest) chunks total_read =
     (if chunk = [] then (Inr chunks, rest)
      else
        let total_read = total_read + length chunk
        in if total_read > MAX_FILE_SIZE
           then (Inl (HTTPException 413 ''File too large. Max 20 MB.''), rest)
           else read_chunks rest (chunks @ [chunk]) total_read)"

subsection \<open>The handler\<close>

text \<open>
  An exception that is an instance of \<^verbatim>\<open>Exception\<close>, with its \<^verbatim>\<open>str\<close>: either an instance
  of \<^verbatim>\<open>TimeoutError\<close>, which the first \<^verbatim>\<open>except\<close> clause of \<^verbatim>\<open>remove_bg\<close> catches, or any
  other one, which the second catches.
\<close>

datatype exn = TimeoutError string | Exception string

text \<open>
  What \<^verbatim>\<open>anyio.fail_after\<close> does to the block it guards: it lets the outcome of the work
  through, or it raises its \<^verbatim>\<open>TimeoutError\<close>, either before the work was handed to a worker
  thread (the deadline had passed on entry) or after.
\<close>

datatype deadline = No_timeout | Timeout_before_start | Timeout_after_start

datatype streaming_response =
  StreamingResponse (body: bytes) (media_type: string) (headers: "(string \<times> string) list")

text \<open>\<^verbatim>\<open>sep.join(xs)\<close>\<close>

fun join :: "string \<Rightarrow> string list \<Rightarrow> string" where
  "join sep [] = []"
| "join sep [x] = x"
| "join sep (x # y # ys) = x @ sep @ join sep (y # ys)"

text \<open>How an f-string prints \<^verbatim>\<open>file.content_type\<close>.\<close>

definition format_content_type :: "string option \<Rightarrow> string" where
  "format_content_type ct = (case ct of Some c \<Rightarrow> c | None \<Rightarrow> ''None'')"

text \<open>
  What a call of the handler leaves behind: its response, the part of the upload that was
  never read, the number of times \<^verbatim>\<open>_process_image\<close> was handed to a worker thread, and the
  server state (the handler only logs).
\<close>

record handled =
  response :: "http_exception + streaming_response"
  unread :: upload
  work_calls :: nat
  server_after :: server

text \<open>
  \<^verbatim>\<open>remove_bg(request, file)\<close>. Its parameters beside the file and the state:
  \<^item> \<open>allowed_order\<close>: the order in which Python iterates over the set \<^verbatim>\<open>ALLOWED_TYPES\<close>
    (it depends on the hash seed of the process);
  \<^item> \<open>INFERENCE_TIMEOUT\<close>: the environment variable, as an integer;
  \<^item> \<open>process_image\<close>: the outcome of \<^verbatim>\<open>_process_image\<close> on the bytes and the content type,
    \<open>Inl\<close> when it raises;
  \<^item> \<open>deadline_first\<close>: whether \<^verbatim>\<open>anyio.fail_after\<close> raises its \<^verbatim>\<open>TimeoutError\<close>, and if so
    whether the work was started. When it does not, the outcome of the block is the
    outcome of the work. Which of them happens is decided by anyio and the scheduler,
    not by this code.
  \<^item> \<open>content_type\<close>: \<^verbatim>\<open>file.content_type\<close>, \<open>None\<close> when the part declares none.
    Past the first check it is a member of \<^verbatim>\<open>ALLOWED_TYPES\<close>, so
    \<^verbatim>\<open>file.content_type or ""\<close> is the content type itself.
\<close>

definition remove_bg ::
  "string list \<Rightarrow> int \<Rightarrow> (bytes \<Rightarrow> string \<Rightarrow> exn + bytes) \<Rightarrow> deadline
     \<Rightarrow> string option \<Rightarrow> upload \<Rightarrow> server \<Rightarrow> handled" where
  "remove_bg allowed_order INFERENCE_TIMEOUT process_image deadline_first content_type file s =
     (if content_type \<notin> Some ` ALLOWED_TYPES
      then \<lparr>response = Inl (HTTPException 415
                (''Unsupported file type: '' @ format_content_type content_type
                 @ ''. Allowed: '' @ join '', '' allowed_order)),
            unread = file, work_calls = 0, server_after = s\<rparr>
      else
        case read_chunks file [] 0 of
          (Inl e, rest) \<Rightarrow> \<lparr>response = Inl e, unread = rest, work_calls = 0, server_after = s\<rparr>
        | (Inr chunks, rest) \<Rightarrow>
            let image_bytes = concat chunks;
                outcome =
                  (if deadline_first = No_timeout
                   then process_image image_bytes
                          (case content_type of Some c \<Rightarrow> c | None \<Rightarrow> [])
                   else Inl (TimeoutError []))
            in case outcome of
                 Inl (TimeoutError m) \<Rightarrow>
                   \<lparr>response = Inl (HTTPException 504 ''Processing timed out.''),
                    unread = rest,
                    work_calls = (if deadline_first = Timeout_before_start then 0 else 1),
                    server_after = s\<lparr>logged := logged s @ [Error_timed_out INFERENCE_TIMEOUT]\<rparr>\<rparr>
               | Inl (Exception e) \<Rightarrow>
                   \<lparr>response = Inl (HTTPException 500 ''Background removal failed.''),
                    unread = rest, work_calls = 1,
                    server_after = s\<lparr>logged := logged s @ [Error_failed e]\<rparr>\<rparr>
               | Inr result_bytes \<Rightarrow>
                   \<lparr>response = Inr (StreamingResponse result_bytes ''image/png''
                      [(''Content-Disposition'', ''attachment; filename=no-bg.png'')]),
                    unread = rest, work_calls = 1, server_after = s\<rparr>)"

text \<open>
  The route \<^verbatim>\<open>POST /remove-bg\<close> with its dependency: \<^verbatim>\<open>verify_api_key\<close> runs first, and the
  handler runs only when it returns normally.
\<close>

definition post_remove_bg ::
  "string option \<Rightarrow> request \<Rightarrow> string option \<Rightarrow> real \<Rightarrow> real
     \<Rightarrow> string list \<Rightarrow> int \<Rightarrow> (bytes \<Rightarrow> string \<Rightarrow> exn + bytes) \<Rightarrow> deadline
     \<Rightarrow> string option \<Rightarrow> upload \<Rightarrow> server \<Rightarrow> handled" where
  "post_remove_bg API_KEY req key now_check now_fail
       allowed_order INFERENCE_TIMEOUT process_image deadline_first content_type file s =
     (case verify_api_key API_KEY req key now_check now_fail s of
        (Inl e, s') \<Rightarrow> \<lparr>response = Inl e, unread = file, work_calls = 0, server_after = s'\<rparr>
      | (Inr u, s') \<Rightarrow>
          remove_bg allowed_order INFERENCE_TIMEOUT process_image deadline_first
            content_type file s')"

subsection \<open>Sample inputs\<close>

text \<open>
  Concrete states, requests, uploads and works on which the theorems below are
  instantiated. \<open>initial\<close> is the state at startup: both dictionaries empty.
\<close>

definition initial :: server where
  "initial = \<lparr>failed_attempts = Map.empty, blocked_ips = Map.empty, logged = []\<rparr>"

definition four_failures :: server where
  "four_failures =
     \<lparr>failed_attempts = [''1.2.3.4'' \<mapsto> [1, 2, 3, 4]], blocked_ips = Map.empty, logged = []\<rparr>"

definition locked_out :: server where
  "locked_out =
     \<lparr>failed_attempts = [''1.2.3.4'' \<mapsto> [1, 2, 3, 4, 5]], blocked_ips = [''1.2.3.4'' \<mapsto> 5],
      logged = [Warning_blocked ''1.2.3.4'' 5]\<rparr>"

text \<open>The floats that the Python literals \<^verbatim>\<open>0.3\<close>, \<^verbatim>\<open>60.3\<close> and \<^verbatim>\<open>900.3\<close> denote.\<close>

definition float_0_3 :: real where
  "float_0_3 = 5404319552844595 / 18014398509481984"

definition float_60_3 :: real where
  "float_60_3 = 4243235273913139 / 70368744177664"

definition float_900_3 :: real where
  "float_900_3 = 3959561273946931 / 4398046511104"

definition locked_since_0_3 :: server where
  "locked_since_0_3 =
     \<lparr>failed_attempts = [''1.2.3.4'' \<mapsto> [0, 1 / 8, 1 / 4, 9 / 32, float_0_3]],
      blocked_ips = [''1.2.3.4'' \<mapsto> float_0_3],
      logged = [Warning_blocked ''1.2.3.4'' 5]\<rparr>"

definition nearly_stale :: server where
  "nearly_stale =
     \<lparr>failed_attempts = [''1.2.3.4'' \<mapsto> [float_0_3, 1, 2, 3]], blocked_ips = Map.empty,
      logged = []\<rparr>"

definition peer :: request where
  "peer = \<lparr>x_forwarded_for = None, client_host = Some ''1.2.3.4''\<rparr>"



definition sample_order :: "string list" where
  "sample_order = [''image/png'', ''image/jpeg'', ''image/webp'', ''image/gif'',
                   ''image/avif'', ''image/svg+xml'']"

definition decode_error_in_work :: "bytes \<Rightarrow> string \<Rightarrow> exn + bytes" where
  "decode_error_in_work image_bytes content_type = Inl (Exception ''cannot identify image file'')"


section \<open>Python floats\<close>

text \<open>
  Where the exact difference of two floats is an integer below \<open>2 ^ 53\<close> in magnitude, it
  is a float and the subtraction is exact.
\<close>

lemma round_half_even_of_int: "round_half_even (of_int z) = z"
  by (simp add: round_half_even_def)

lemma halvings_bounds:
  "1 \<le> a \<Longrightarrow> a < 2 ^ m \<Longrightarrow> 0 \<le> halvings n a \<and> halvings n a < int m"
proof (induction n arbitrary: a m)
  case 0
  then have "m \<noteq> 0" by (cases m) auto
  then show ?case by simp
next
  case (Suc n)
  show ?case
  proof (cases "a < 2")
    case True
    from Suc.prems have "m \<noteq> 0" by (cases m) auto
    with True show ?thesis by simp
  next
    case False
    with Suc.prems obtain k where m: "m = Suc k" by (cases m) auto
    from False have 1: "1 \<le> a / 2" by simp
    from Suc.prems m have 2: "a / 2 < 2 ^ k" by simp
    from Suc.IH[OF 1 2] False m show ?thesis by simp
  qed
qed

lemma round_to_double_of_int:
  assumes "\<bar>k\<bar> < 2 ^ 53"
  shows "round_to_double (of_int k) = of_int k"
proof (cases "k = 0")
  case True
  then show ?thesis by (simp add: round_to_double_def)
next
  case False
  define a where "a = \<bar>real_of_int k\<bar>"
  from False have a1: "1 \<le> a" by (simp add: a_def)
  from assms have a2: "a < 2 ^ 53" unfolding a_def
    by (metis of_int_abs of_int_less_numeral_power_cancel_iff)
  define e where "e = float_exponent a"
  from a1 have "e = halvings 1024 a" by (simp add: e_def float_exponent_def)
  with halvings_bounds[OF a1 a2, of 1024] have e: "0 \<le> e" "e \<le> 52" by simp_all
  define j where "j = nat (52 - e)"
  from e have q: "2 powi (e - 52) = 1 / (2::real) ^ j"
    by (simp add: j_def power_int_def nat_diff_distrib' field_simps)
  have "a / (2 powi (e - 52)) = of_int (\<bar>k\<bar> * 2 ^ j)"
    by (simp add: q a_def)
  then have r: "round_half_even (a / (2 powi (e - 52))) = \<bar>k\<bar> * 2 ^ j"
    by (simp only: round_half_even_of_int)
  have "round_to_double (of_int k) = sgn (real_of_int k) * of_int (\<bar>k\<bar> * 2 ^ j) * (1 / 2 ^ j)"
    using False r q by (simp add: round_to_double_def Let_def a_def[symmetric] e_def[symmetric])
  also have "\<dots> = sgn (real_of_int k) * \<bar>real_of_int k\<bar>" by simp
  also have "\<dots> = of_int k" by (simp add: sgn_mult_abs)
  finally show ?thesis .
qed

lemma float_sub_exact:
  assumes "x - y \<in> \<int>" and "\<bar>x - y\<bar> < 9007199254740992"
  shows "float_sub x y = x - y"
proof -
  from assms(1) obtain k where k: "x - y = of_int k" by (auto elim: Ints_cases)
  with assms(2) have "\<bar>k\<bar> < 2 ^ 53" by (simp flip: of_int_abs)
  from round_to_double_of_int[OF this] k show ?thesis by (simp add: float_sub_def)
qed

lemma float_sub_self: "float_sub x x = 0"
  by (simp add: float_sub_def round_to_double_def)

text \<open>
  Where it is not, rounding shows: in Python \<^verbatim>\<open>900.3 - 0.3 == 900.0\<close> and
  \<^verbatim>\<open>60.3 - 0.3 == 60.0\<close>, though the exact differences of these floats are below 900 and 60.
\<close>

lemma float_sub_900_3:
  "float_900_3 - float_0_3 < 900 \<and> float_sub float_900_3 float_0_3 = 900"
  by code_simp

lemma float_sub_60_3:
  "float_60_3 - float_0_3 < 60 \<and> float_sub float_60_3 float_0_3 = 60"
  by code_simp

lemma float_sub_60_3_later:
  "float_sub float_60_3 1 < 60 \<and> float_sub float_60_3 2 < 60 \<and> float_sub float_60_3 3 < 60"
  by code_simp

section \<open>The attempt tracker\<close>

lemma record_failure_attempts:
  "failed_attempts (record_failure now ip s) ip =
     Some (filter (\<lambda>t. float_sub now t < ATTEMPT_WINDOW)
             (case failed_attempts s ip of Some ts \<Rightarrow> ts | None \<Rightarrow> []) @ [now])"
  by (simp add: record_failure_def Let_def)

lemma record_failure_blocked:
  "blocked_ips (record_failure now ip s) =
     (if MAX_FAILED_ATTEMPTS \<le>
           length (filter (\<lambda>t. float_sub now t < ATTEMPT_WINDOW)
             (case failed_attempts s ip of Some ts \<Rightarrow> ts | None \<Rightarrow> [])) + 1
      then (blocked_ips s)(ip \<mapsto> now) else blocked_ips s)"
  by (simp add: record_failure_def Let_def)

lemma is_blocked_fst:
  "fst (is_blocked now ip s) =
     (\<exists>since. blocked_ips s ip = Some since \<and> float_sub now since < BLOCK_DURATION)"
  by (simp add: is_blocked_def split: option.splits)

lemma is_blocked_expired:
  "blocked_ips s ip = Some since \<Longrightarrow> BLOCK_DURATION \<le> float_sub now since \<Longrightarrow>
   is_blocked now ip s =
     (False, s\<lparr>blocked_ips := (blocked_ips s)(ip := None),
               failed_attempts := (failed_attempts s)(ip := None)\<rparr>)"
  by (simp add: is_blocked_def)

lemma is_blocked_live:
  "blocked_ips s ip = Some since \<Longrightarrow> float_sub now since < BLOCK_DURATION \<Longrightarrow>
   is_blocked now ip s = (True, s)"
  by (simp add: is_blocked_def)

lemma is_blocked_absent:
  "blocked_ips s ip = None \<Longrightarrow> is_blocked now ip s = (False, s)"
  by (simp add: is_blocked_def)

lemma fifth_failure: "record_failure 5 ''1.2.3.4'' four_failures = locked_out"
  by (simp add: record_failure_def four_failures_def locked_out_def Let_def float_sub_exact
      ATTEMPT_WINDOW_def MAX_FAILED_ATTEMPTS_def)

lemma peer_ip: "get_client_ip peer = ''1.2.3.4''"
  by (simp add: get_client_ip_def peer_def)

text \<open>
  Claim C1. When \<open>record_failure\<close> leaves at least \<open>MAX_FAILED_ATTEMPTS\<close> timestamps in the
  attempt record of an identity, it stores a lockout for it with the reading of the clock
  of that call. In any state, \<open>is_blocked\<close> answers true exactly when the identity has a
  lockout record and the time elapsed since it, as the code computes it
  (\<^verbatim>\<open>time.monotonic() - _blocked_ips[ip]\<close>, a float), is strictly below \<open>BLOCK_DURATION\<close>. A
  call that finds a lockout record with an elapsed time of at least \<open>BLOCK_DURATION\<close>
  answers false and removes the lockout record and the attempt record of the identity.
\<close>

theorem lockout_lifecycle:
  "(\<forall>ts. failed_attempts (record_failure now ip s) ip = Some ts \<and> MAX_FAILED_ATTEMPTS \<le> length ts
       \<longrightarrow> blocked_ips (record_failure now ip s) ip = Some now)
   \<and> fst (is_blocked later ip s1) =
       (\<exists>since. blocked_ips s1 ip = Some since \<and> float_sub later since < BLOCK_DURATION)
   \<and> (\<forall>since. blocked_ips s1 ip = Some since \<and> BLOCK_DURATION \<le> float_sub later since
       \<longrightarrow> is_blocked later ip s1 =
             (False, s1\<lparr>blocked_ips := (blocked_ips s1)(ip := None),
                        failed_attempts := (failed_attempts s1)(ip := None)\<rparr>))"
proof (intro conjI allI impI)
  fix ts
  assume "failed_attempts (record_failure now ip s) ip = Some ts \<and> MAX_FAILED_ATTEMPTS \<le> length ts"
  then show "blocked_ips (record_failure now ip s) ip = Some now"
    by (auto simp: record_failure_attempts record_failure_blocked)
next
  show "fst (is_blocked later ip s1) =
       (\<exists>since. blocked_ips s1 ip = Some since \<and> float_sub later since < BLOCK_DURATION)"
    by (rule is_blocked_fst)
next
  fix since
  assume "blocked_ips s1 ip = Some since \<and> BLOCK_DURATION \<le> float_sub later since"
  then show "is_blocked later ip s1 =
             (False, s1\<lparr>blocked_ips := (blocked_ips s1)(ip := None),
                        failed_attempts := (failed_attempts s1)(ip := None)\<rparr>)"
    by (simp add: is_blocked_expired)
qed

text \<open>
  The fifth failure of \<open>1.2.3.4\<close> at time 5, after four at times 1 to 4: the lockout is
  stored with 5, is live at 904 and is cleared, with the attempts, by the check at 905.
  And a lockout stored at the float 0.3 is cleared by the check at the float 900.3, where
  Python computes an elapsed time of 900.0.
\<close>

theorem lockout_lifecycle_witness:
  "failed_attempts (record_failure 5 ''1.2.3.4'' four_failures) ''1.2.3.4'' = Some [1, 2, 3, 4, 5]
   \<and> MAX_FAILED_ATTEMPTS \<le> length [1::real, 2, 3, 4, 5]
   \<and> blocked_ips (record_failure 5 ''1.2.3.4'' four_failures) ''1.2.3.4'' = Some 5
   \<and> fst (is_blocked 904 ''1.2.3.4'' (record_failure 5 ''1.2.3.4'' four_failures))
   \<and> BLOCK_DURATION \<le> float_sub 905 5
   \<and> is_blocked 905 ''1.2.3.4'' (record_failure 5 ''1.2.3.4'' four_failures) =
       (False, \<lparr>failed_attempts = Map.empty, blocked_ips = Map.empty,
                logged = [Warning_blocked ''1.2.3.4'' 5]\<rparr>)
   \<and> blocked_ips locked_since_0_3 ''1.2.3.4'' = Some float_0_3
   \<and> BLOCK_DURATION \<le> float_sub float_900_3 float_0_3
   \<and> is_blocked float_900_3 ''1.2.3.4'' locked_since_0_3 =
       (False, \<lparr>failed_attempts = Map.empty, blocked_ips = Map.empty,
                logged = [Warning_blocked ''1.2.3.4'' 5]\<rparr>)"
  using lockout_lifecycle [of 5 "''1.2.3.4''" four_failures 904
      "record_failure 5 ''1.2.3.4'' four_failures"]
    lockout_lifecycle [of 5 "''1.2.3.4''" four_failures 905
      "record_failure 5 ''1.2.3.4'' four_failures"]
    lockout_lifecycle [of 5 "''1.2.3.4''" four_failures float_900_3 locked_since_0_3]
  by (simp add: fifth_failure locked_out_def locked_since_0_3_def float_sub_exact
      float_sub_900_3 BLOCK_DURATION_def MAX_FAILED_ATTEMPTS_def)

text \<open>
  Claim C2. \<open>record_failure\<close> keeps of the stored timestamps only those whose age, as the
  code computes it (\<^verbatim>\<open>now - t\<close>, a float), is below \<open>ATTEMPT_WINDOW\<close>, then appends the
  current time: every timestamp of the new record is inside the window. The lockout is
  decided on the length of that pruned list alone, so stored failures that are
  \<open>ATTEMPT_WINDOW\<close> old or older never count: when all of them are, the new record holds
  the current failure only and no lockout is created, however many there were.
\<close>

theorem sliding_window:
  "failed_attempts (record_failure now ip s) ip =
     Some (filter (\<lambda>t. float_sub now t < ATTEMPT_WINDOW)
             (case failed_attempts s ip of Some ts \<Rightarrow> ts | None \<Rightarrow> []) @ [now])
   \<and> (\<forall>ts. failed_attempts (record_failure now ip s) ip = Some ts
         \<longrightarrow> (\<forall>t \<in> set ts. float_sub now t < ATTEMPT_WINDOW))
   \<and> blocked_ips (record_failure now ip s) =
       (if MAX_FAILED_ATTEMPTS \<le>
             length (filter (\<lambda>t. float_sub now t < ATTEMPT_WINDOW)
               (case failed_attempts s ip of Some ts \<Rightarrow> ts | None \<Rightarrow> [])) + 1
        then (blocked_ips s)(ip \<mapsto> now) else blocked_ips s)
   \<and> (\<forall>old. failed_attempts s ip = Some old
              \<and> (\<forall>t \<in> set old. ATTEMPT_WINDOW \<le> float_sub now t)
         \<longrightarrow> failed_attempts (record_failure now ip s) ip = Some [now]
             \<and> blocked_ips (record_failure now ip s) = blocked_ips s)"
proof (intro conjI allI impI)
  show "failed_attempts (record_failure now ip s) ip =
     Some (filter (\<lambda>t. float_sub now t < ATTEMPT_WINDOW)
             (case failed_attempts s ip of Some ts \<Rightarrow> ts | None \<Rightarrow> []) @ [now])"
    by (rule record_failure_attempts)
next
  fix ts
  assume "failed_attempts (record_failure now ip s) ip = Some ts"
  then show "\<forall>t \<in> set ts. float_sub now t < ATTEMPT_WINDOW"
    by (auto simp: record_failure_attempts float_sub_self ATTEMPT_WINDOW_def)
next
  show "blocked_ips (record_failure now ip s) =
       (if MAX_FAILED_ATTEMPTS \<le>
             length (filter (\<lambda>t. float_sub now t < ATTEMPT_WINDOW)
               (case failed_attempts s ip of Some ts \<Rightarrow> ts | None \<Rightarrow> [])) + 1
        then (blocked_ips s)(ip \<mapsto> now) else blocked_ips s)"
    by (rule record_failure_blocked)
next
  fix old
  assume a: "failed_attempts s ip = Some old
    \<and> (\<forall>t \<in> set old. ATTEMPT_WINDOW \<le> float_sub now t)"
  then have f: "filter (\<lambda>t. float_sub now t < ATTEMPT_WINDOW) old = []"
    by (auto simp: filter_empty_conv)
  from a f show "failed_attempts (record_failure now ip s) ip = Some [now]"
    by (simp add: record_failure_attempts)
  from a f show "blocked_ips (record_failure now ip s) = blocked_ips s"
    by (simp add: record_failure_blocked MAX_FAILED_ATTEMPTS_def)
qed

text \<open>
  Four failures at times 1 to 4 are all stale at time 64: the fifth failure, recorded then,
  starts a new record and locks nothing. And of the failures at the floats 0.3, 1, 2 and 3,
  the one at 0.3 is stale at the float 60.3, where Python computes an age of 60.0: four
  failures remain and nothing is locked.
\<close>

theorem sliding_window_witness:
  "failed_attempts four_failures ''1.2.3.4'' = Some [1, 2, 3, 4]
   \<and> list_all (\<lambda>t. ATTEMPT_WINDOW \<le> float_sub 64 t) [1, 2, 3, 4]
   \<and> failed_attempts (record_failure 64 ''1.2.3.4'' four_failures) ''1.2.3.4'' = Some [64]
   \<and> blocked_ips (record_failure 64 ''1.2.3.4'' four_failures) = Map.empty
   \<and> failed_attempts (record_failure float_60_3 ''1.2.3.4'' nearly_stale) ''1.2.3.4''
       = Some [1, 2, 3, float_60_3]
   \<and> blocked_ips (record_failure float_60_3 ''1.2.3.4'' nearly_stale) = Map.empty"
  using sliding_window [of 64 "''1.2.3.4''" four_failures]
    sliding_window [of float_60_3 "''1.2.3.4''" nearly_stale]
  by (simp add: four_failures_def nearly_stale_def float_sub_exact float_sub_60_3
      float_sub_60_3_later ATTEMPT_WINDOW_def MAX_FAILED_ATTEMPTS_def)

section \<open>Authentication\<close>

text \<open>
  Five requests of \<open>1.2.3.4\<close> with a wrong key, at times 1 to 5, starting from the state at
  startup: the fifth one creates the lockout.
\<close>

lemma five_wrong_keys:
  "snd (verify_api_key (Some ''secret'') peer (Some ''wrong'') 5 5
     (snd (verify_api_key (Some ''secret'') peer (Some ''wrong'') 4 4
       (snd (verify_api_key (Some ''secret'') peer None 3 3
         (snd (verify_api_key (Some ''secret'') peer (Some ''wrong'') 2 2
           (snd (verify_api_key (Some ''secret'') peer (Some ''wrong'') 1 1 initial)))))))))
   = locked_out"
  by (simp add: verify_api_key_def peer_ip is_blocked_def record_failure_def initial_def
      locked_out_def Let_def float_sub_exact ATTEMPT_WINDOW_def MAX_FAILED_ATTEMPTS_def)

text \<open>
  Claim C3. With a secret configured and the identity of the request blocked (it has a
  lockout record, and the time elapsed since it, as the code computes it, is below
  \<open>BLOCK_DURATION\<close>), \<open>verify_api_key\<close> raises the 429 exception for every supplied key, the
  configured secret included, and leaves the state as it was: the key is not looked at
  and no failure is recorded.
\<close>

theorem blocked_gets_lockout:
  assumes "API_KEY = Some secret"
    and "blocked_ips s (get_client_ip req) = Some since"
    and "float_sub now_check since < BLOCK_DURATION"
  shows "verify_api_key API_KEY req key now_check now_fail s =
           (Inl (HTTPException 429 ''Too many failed attempts. Try again later.''), s)
         \<and> verify_api_key API_KEY req (Some secret) now_check now_fail s =
           (Inl (HTTPException 429 ''Too many failed attempts. Try again later.''), s)"
  using assms by (simp add: verify_api_key_def is_blocked_live)

text \<open>The sixth request of \<open>1.2.3.4\<close>, at time 10 and with the right key.\<close>

theorem blocked_gets_lockout_witness:
  "blocked_ips locked_out (get_client_ip peer) = Some 5
   \<and> float_sub 10 5 < BLOCK_DURATION
   \<and> verify_api_key (Some ''secret'') peer (Some ''secret'') 10 10 locked_out =
       (Inl (HTTPException 429 ''Too many failed attempts. Try again later.''), locked_out)"
  using blocked_gets_lockout [of "Some ''secret''" "''secret''" locked_out peer 5 10
      "Some ''secret''" 10]
  by (simp add: peer_ip locked_out_def float_sub_exact BLOCK_DURATION_def)

text \<open>
  Where the lockout has run out, the right key passes and the records are cleared: here
  with the lockout stored at the float 0.3 and the request at the float 900.3.
\<close>

lemma expired_lockout_passes:
  "verify_api_key (Some ''secret'') peer (Some ''secret'') float_900_3 float_900_3
       locked_since_0_3 =
     (Inr (), \<lparr>failed_attempts = Map.empty, blocked_ips = Map.empty,
               logged = [Warning_blocked ''1.2.3.4'' 5]\<rparr>)"
  by (simp add: verify_api_key_def peer_ip is_blocked_def locked_since_0_3_def
      float_sub_900_3 BLOCK_DURATION_def)

text \<open>
  Claim C8. With no secret configured, \<open>verify_api_key\<close> returns normally for every
  request, whatever the \<^verbatim>\<open>X-API-Key\<close> header is and also when it is absent, so the route
  always runs the handler.
\<close>

theorem bypass_allows:
  "fst (verify_api_key None req key now_check now_fail s) = Inr ()
   \<and> post_remove_bg None req key now_check now_fail
        allowed_order INFERENCE_TIMEOUT process_image deadline_first content_type file s
     = remove_bg allowed_order INFERENCE_TIMEOUT process_image deadline_first content_type file s"
  by (simp add: verify_api_key_def post_remove_bg_def)

text \<open>
  Claim C9. With no secret configured, \<open>verify_api_key\<close> returns the state it was given,
  and its answer is the same in every state and at every time: the dictionaries are
  neither read nor written. An identity with a live lockout record is let through.
\<close>

theorem bypass_frame:
  "snd (verify_api_key None req key now_check now_fail s) = s
   \<and> fst (verify_api_key None req key now_check now_fail s)
       = fst (verify_api_key None req key now_check' now_fail' s')
   \<and> (\<forall>since. blocked_ips s (get_client_ip req) = Some since \<and> now_check - since < BLOCK_DURATION
        \<longrightarrow> verify_api_key None req key now_check now_fail s = (Inr (), s))"
  by (simp add: verify_api_key_def)

text \<open>The locked out \<open>1.2.3.4\<close> passes, with a wrong key, once the secret is unset.\<close>

theorem bypass_frame_witness:
  "blocked_ips locked_out (get_client_ip peer) = Some 5
   \<and> (10::real) - 5 < BLOCK_DURATION
   \<and> verify_api_key None peer (Some ''wrong'') 10 10 locked_out = (Inr (), locked_out)"
  using bypass_frame [of peer "Some ''wrong''" 10 10 locked_out]
  by (simp add: peer_ip locked_out_def BLOCK_DURATION_def)

section \<open>The upload limit\<close>





section \<open>The handler\<close>

lemma sample_order_allowed: "set sample_order = ALLOWED_TYPES \<and> distinct sample_order"
  by (auto simp: sample_order_def ALLOWED_TYPES_def)

text \<open>
  The outcomes of the handler for a content type of the allow-list and an upload that was
  read: the 504 exception when anyio raises its \<^verbatim>\<open>TimeoutError\<close>, the PNG response when the
  work returns, and the 500 exception, with the cause in the log only, when the work raises
  an exception that is not a \<^verbatim>\<open>TimeoutError\<close>.
\<close>

lemma remove_bg_deadline:
  assumes "ct \<in> ALLOWED_TYPES" and "read_chunks file [] 0 = (Inr chunks, rest)"
    and "deadline_first \<noteq> No_timeout"
  shows "remove_bg allowed_order INFERENCE_TIMEOUT process_image deadline_first (Some ct) file s =
     \<lparr>response = Inl (HTTPException 504 ''Processing timed out.''),
      unread = rest, work_calls = (if deadline_first = Timeout_before_start then 0 else 1),
      server_after = s\<lparr>logged := logged s @ [Error_timed_out INFERENCE_TIMEOUT]\<rparr>\<rparr>"
  using assms by (simp add: remove_bg_def)

lemma remove_bg_success:
  assumes "ct \<in> ALLOWED_TYPES" and "read_chunks file [] 0 = (Inr chunks, rest)"
    and "process_image (concat chunks) ct = Inr result_bytes"
  shows "remove_bg allowed_order INFERENCE_TIMEOUT process_image No_timeout (Some ct) file s =
     \<lparr>response = Inr (StreamingResponse result_bytes ''image/png''
          [(''Content-Disposition'', ''attachment; filename=no-bg.png'')]),
      unread = rest, work_calls = 1, server_after = s\<rparr>"
  using assms by (simp add: remove_bg_def)

lemma remove_bg_work_failure:
  assumes "ct \<in> ALLOWED_TYPES" and "read_chunks file [] 0 = (Inr chunks, rest)"
    and "process_image (concat chunks) ct = Inl (Exception cause)"
  shows "remove_bg allowed_order INFERENCE_TIMEOUT process_image No_timeout (Some ct) file s =
     \<lparr>response = Inl (HTTPException 500 ''Background removal failed.''),
      unread = rest, work_calls = 1,
      server_after = s\<lparr>logged := logged s @ [Error_failed cause]\<rparr>\<rparr>"
  using assms by (simp add: remove_bg_def)

text \<open>
  Claim C6. When the declared content type is not a member of \<open>ALLOWED_TYPES\<close>, the
  handler raises the 415 exception, whose detail names the declared type and lists the
  allowed ones, without reading any of the upload, without handing the work to a thread
  and without logging, whatever the work and the deadline would have done.
\<close>

theorem unsupported_type_rejected:
  assumes "content_type \<notin> Some ` ALLOWED_TYPES"
  shows "remove_bg allowed_order INFERENCE_TIMEOUT process_image deadline_first content_type file s =
     \<lparr>response = Inl (HTTPException 415
          (''Unsupported file type: '' @ format_content_type content_type
           @ ''. Allowed: '' @ join '', '' allowed_order)),
      unread = file, work_calls = 0, server_after = s\<rparr>"
  using assms by (simp add: remove_bg_def)

text \<open>An upload declared as \<^verbatim>\<open>image/bmp\<close>.\<close>

theorem unsupported_type_rejected_witness:
  "Some ''image/bmp'' \<notin> Some ` ALLOWED_TYPES
   \<and> remove_bg sample_order 120 decode_error_in_work No_timeout (Some ''image/bmp'')
       [[1, 2], [3]] initial =
     \<lparr>response = Inl (HTTPException 415
          ''Unsupported file type: image/bmp. Allowed: image/png, image/jpeg, image/webp, image/gif, image/avif, image/svg+xml''),
      unread = [[1, 2], [3]], work_calls = 0, server_after = initial\<rparr>"
proof -
  have h: "Some ''image/bmp'' \<notin> Some ` ALLOWED_TYPES"
    by (simp add: ALLOWED_TYPES_def image_iff)
  show ?thesis
    using h unsupported_type_rejected [OF h, of sample_order 120 decode_error_in_work No_timeout
        "[[1, 2], [3]]" initial]
    by (simp add: sample_order_def format_content_type_def)
qed

text \<open>
  Claim C10. When the uploaded part declares no content type, the handler raises the 415
  exception (the detail prints the absent type as \<^verbatim>\<open>None\<close>) and none of the upload is
  read: \<^verbatim>\<open>None\<close> is not a member of \<open>ALLOWED_TYPES\<close>.
\<close>

theorem absent_type_rejected:
  "remove_bg allowed_order INFERENCE_TIMEOUT process_image deadline_first None file s =
     \<lparr>response = Inl (HTTPException 415
          (''Unsupported file type: None. Allowed: '' @ join '', '' allowed_order)),
      unread = file, work_calls = 0, server_after = s\<rparr>"
  by (simp add: remove_bg_def format_content_type_def image_iff)


end
